theory Spec2Isabelle
  imports Main
begin

section \<open>The front end, as the code generators observe it\<close>

text \<open>
  The generators never build types or syntax nodes; they query them. A static type is
  observed through its flags, its symbol and its identity. \<open>flags t\<close> is the set of the
  masks \<open>m\<close> of \<^verbatim>\<open>ts.TypeFlags\<close> named in the sources for which the test
  \<^verbatim>\<open>t.flags & ts.TypeFlags.m\<close> is truthy. The masks may overlap, so a type may carry
  several of them, and the order of the tests in the sources is kept everywhere.
\<close>

datatype TypeFlags = IntLike | NumberLike | BooleanLike | Object

datatype ts_SourceFile = SourceFile string

datatype ts_Declaration = Declaration (getSourceFile: ts_SourceFile)

datatype ts_Symbol =
  Symbol (symbol_name: string) (getDeclarations: "ts_Declaration list")
    (valueDeclaration: "ts_Declaration option")

datatype ts_Type = Type (type_id: nat) (flags: "TypeFlags set") (getSymbol: "ts_Symbol option")

datatype ts_Signature = Signature (signature_id: nat) (getReturnType: ts_Type)

datatype PrefixUnaryOperator =
    ExclamationToken | MinusToken | MinusMinusToken | PlusToken | PlusPlusToken | TildeToken

text \<open>
  Syntax nodes carry their source position; a diagnostic is built from a node and
  that is how it carries the source location.
\<close>

datatype ts_Node =
    Identifier nat string
  | FirstLiteralToken nat string
  | PrefixUnaryExpression nat PrefixUnaryOperator ts_Node
  | PropertyAccessExpression nat ts_Node string
  | NewExpression nat ts_Node "ts_Node list"

section \<open>Diagnostics\<close>

text \<open>
  Every \<^verbatim>\<open>throw\<close> of the sources is a value: the constructors are the factory
  functions of \<^verbatim>\<open>CodeGenerationDiagnostics\<close> that the sources call, with the
  arguments they pass. \<open>TypeError\<close> is the JavaScript run-time error of a member
  access on \<^verbatim>\<open>undefined\<close>; \<open>UnsupportedBuiltIn\<close> is the spec's name for what the
  inherited \<^verbatim>\<open>throwUnsupportedBuiltIn\<close> raises; \<open>OtherDiagnostic\<close> stands for what a
  collaborator outside these sources may raise.
\<close>

datatype Diagnostic =
    unsupportedUnaryOperation ts_Node string
  | unsupportedLiteralType ts_Node string
  | builtInMethodNotSupported ts_Node string string
  | UnsupportedBuiltIn ts_Node string string
  | TypeError
  | OtherDiagnostic string

section \<open>The low-level values that are built\<close>

text \<open>
  A JavaScript number is kept as the text it is converted from: \<open>Number s\<close> is the
  value of \<^verbatim>\<open>+s\<close>. Instructions are kept as terms: the value an instruction yields
  is the instruction applied to its operands, so the operands of a result show every
  instruction that was inserted to compute it. \<open>OpaqueStructTy\<close> is a named struct
  whose body has not been set.
\<close>

datatype js_number = Number string

datatype llvm_Type =
    Int1Ty | Int8Ty | Int32Ty | DoubleTy | VoidTy
  | PointerTy llvm_Type
  | StructTy (struct_name: string) (struct_elements: "llvm_Type list")
  | OpaqueStructTy string
  | FunctionTy llvm_Type "llvm_Type list" bool

datatype LinkageTypes = ExternalLinkage

datatype AttrKind = AlwaysInline

datatype llvm_Function =
  Function (functionType: llvm_Type) (linkage: LinkageTypes) (function_name: string)
    (fnAttrs: "AttrKind list")

section \<open>Resolved functions (resolved-function.ts)\<close>

record ResolvedFunctionParameter =
  name :: string
  parameter_symbol :: "ts_Symbol option"
  parameter_type :: ts_Type
  initializer :: "ts_Node option"
  optional :: bool
  variadic :: bool

record ResolvedFunction =
  classType :: "ts_Type option"
  instanceMethod :: bool
  async :: bool
  functionName :: "string option"
  parameters :: "ResolvedFunctionParameter list"
  typeParameters :: "ts_Type list"
  returnType :: ts_Type
  sourceFile :: "ts_SourceFile option"
  symbol :: "ts_Symbol option"
  declaration_node :: "ts_Node option"
  definition_node :: "ts_Node option"

text \<open>
  The two factory functions. Default arguments are written out by the callers; the
  fields the object literal of \<^verbatim>\<open>createResolvedFunction\<close> leaves out are absent.
\<close>

definition createResolvedFunction ::
  "string \<Rightarrow> ts_Type list \<Rightarrow> ResolvedFunctionParameter list \<Rightarrow> ts_Type \<Rightarrow>
   ts_SourceFile option \<Rightarrow> ts_Type option \<Rightarrow> bool \<Rightarrow> bool \<Rightarrow> ResolvedFunction" where
  "createResolvedFunction name' typeParameters' parameters' returnType' sourceFile' classType'
     instanceMethod' async' =
     \<lparr>classType = classType', instanceMethod = instanceMethod', async = async',
      functionName = Some name', parameters = parameters', typeParameters = typeParameters',
      returnType = returnType', sourceFile = sourceFile', symbol = None,
      declaration_node = None, definition_node = None\<rparr>"

definition createResolvedParameter ::
  "string \<Rightarrow> ts_Type \<Rightarrow> bool \<Rightarrow> ts_Node option \<Rightarrow> bool \<Rightarrow> ResolvedFunctionParameter" where
  "createResolvedParameter name' type' optional' initializer' variadic' =
     \<lparr>name = name', parameter_symbol = None, parameter_type = type',
      initializer = initializer', optional = optional', variadic = variadic'\<rparr>"

section \<open>References to objects and functions\<close>

text \<open>
  The reference classes are not among these sources, except the wrapper of the built-in
  Math object. A reference is kept as the call of the factory that made it, with the
  arguments the sources pass, and nothing else is said about it.
\<close>

datatype ObjectReference = MathObjectReference (pointer: nat) (object_type: ts_Type)

definition typeName :: "ObjectReference \<Rightarrow> string" where
  "typeName this = ''Math''"

record FunctionProperties =
  readnone :: bool
  noUnwind :: bool

datatype FunctionReference =
    ResolvedFunctionReference ResolvedFunction
  | UnresolvedFunctionReference "ts_Signature list"
  | UnresolvedMethodReference ObjectReference "ts_Signature list" FunctionProperties

datatype ObjectPropertyReference =
  ComputedObjectPropertyReference (property: ts_Node) (object: ObjectReference)
    (readonly: bool) (fromRuntime: bool)

text \<open>
  The constructors \<open>createNot\<close> to \<open>createCall\<close> are the methods of the instruction
  builder that the sources call, with the instruction name they pass. \<open>Operand\<close> and
  \<open>SIToFP\<close> are operands that only collaborators outside these sources produce, and so is
  \<open>RuntimeCall\<close>, the call of the external symbol that a function reference stands for.
\<close>

datatype llvm_Value =
    Operand nat
  | SIToFP llvm_Value
  | ConstantInt js_number
  | ConstantFP js_number
  | createNot llvm_Value string
  | createNeg llvm_Value string
  | createFNeg llvm_Value string
  | createSub llvm_Value llvm_Value string
  | createFSub llvm_Value llvm_Value string
  | createAdd llvm_Value llvm_Value string
  | createFAdd llvm_Value llvm_Value string
  | createCall llvm_Function "llvm_Value list"
  | RuntimeCall FunctionReference "llvm_Value list"

text \<open>
  Modelled from the spec: the classes \<^verbatim>\<open>Value\<close> and \<^verbatim>\<open>Primitive\<close> are not among
  these sources. The spec has a Value as the immutable pairing of a generated operand
  and its static type; \<open>generateIR\<close> reads the operand. Both
  \<^verbatim>\<open>new Primitive(value, type)\<close> and \<^verbatim>\<open>context.value(value, type)\<close> are this pairing.
\<close>

datatype Value = Value (generateIR: llvm_Value) (value_type: ts_Type)


section \<open>The code generation context and its collaborators\<close>

text \<open>
  The mutable state of one compilation: the flag that tells the linker a garbage
  collector is needed and the functions of the module under construction, which these
  sources read and write, and the assignments to lvalues made so far, which only
  \<^verbatim>\<open>context.assignValue\<close> extends.
\<close>

record CodeGenerationContext =
  requiresGc :: bool
  module :: "string \<rightharpoonup> llvm_Function"
  assigned :: "(Value \<times> Value) list"

text \<open>
  The functions the sources call and do not contain are parameters: the type checker,
  the services of the context, the conversions of values, the factories of function
  references, the name mangler of the runtime system and the helpers of
  \<^verbatim>\<open>util/types\<close>. One that receives the context and may change it takes the state
  and returns the new one; every one that may raise returns a diagnostic instead.
\<close>

record Collaborators =
  getTypeAtLocation :: "ts_Node \<Rightarrow> ts_Type"
  typeToString :: "ts_Type \<Rightarrow> string"
  getResolvedSignature :: "ts_Node \<Rightarrow> ts_Signature"
  getSignatureFromDeclaration :: "ts_Declaration option \<Rightarrow> ts_Signature"
  getProperty :: "ts_Type \<Rightarrow> string \<Rightarrow> ts_Symbol option"
  getNonNullableType :: "ts_Type \<Rightarrow> ts_Type"
  isMaybeObjectType :: "ts_Type \<Rightarrow> bool"
  getArrayElementType :: "ts_Type \<Rightarrow> ts_Type"
  toLLVMType :: "ts_Type \<Rightarrow> Diagnostic + llvm_Type"
  mangleMethodName :: "ts_Type \<Rightarrow> string \<Rightarrow> ts_Type list \<Rightarrow> string"
  builtIns :: "string \<rightharpoonup> ts_Symbol"
  getVariable :: "ts_Symbol option \<Rightarrow> CodeGenerationContext \<Rightarrow> Diagnostic + Value"
  dereference :: "Value \<Rightarrow> CodeGenerationContext \<Rightarrow> ObjectReference"
  generateValue ::
    "ts_Node \<Rightarrow> CodeGenerationContext \<Rightarrow> Diagnostic + Value \<times> CodeGenerationContext"
  assignValue ::
    "Value \<Rightarrow> Value \<Rightarrow> CodeGenerationContext \<Rightarrow> Diagnostic + CodeGenerationContext"
  castImplicit :: "Value \<Rightarrow> ts_Type \<Rightarrow> Value option"
  toBoolean :: "Value \<Rightarrow> ts_Type \<Rightarrow> Diagnostic + llvm_Value"
  toInt32 :: "Value \<Rightarrow> ts_Type \<Rightarrow> ts_Type \<Rightarrow> Diagnostic + Value"
  toNumber :: "Value \<Rightarrow> ts_Type \<Rightarrow> ts_Type \<Rightarrow> Diagnostic + Value"
  ResolvedFunctionReference_createRuntimeFunction ::
    "ResolvedFunction \<Rightarrow> CodeGenerationContext \<Rightarrow>
     Diagnostic + FunctionReference \<times> CodeGenerationContext"
  UnresolvedFunctionReference_createRuntimeFunction ::
    "ts_Signature list \<Rightarrow> CodeGenerationContext \<Rightarrow>
     Diagnostic + FunctionReference \<times> CodeGenerationContext"
  UnresolvedMethodReference_createRuntimeMethod ::
    "ObjectReference \<Rightarrow> ts_Signature list \<Rightarrow> FunctionProperties \<Rightarrow> CodeGenerationContext \<Rightarrow>
     Diagnostic + FunctionReference \<times> CodeGenerationContext"
  invokeWith ::
    "FunctionReference \<Rightarrow> llvm_Value list \<Rightarrow> CodeGenerationContext \<Rightarrow>
     Diagnostic + Value \<times> CodeGenerationContext"

section \<open>Numeric literals (first-literal-token-code-generator.ts)\<close>

fun FirstLiteralTokenCodeGenerator_generate ::
  "Collaborators \<Rightarrow> ts_Node \<Rightarrow> CodeGenerationContext \<Rightarrow> Diagnostic + Value" where
  "FirstLiteralTokenCodeGenerator_generate env (FirstLiteralToken pos node_text) context =
     (let node = FirstLiteralToken pos node_text;
          type = getTypeAtLocation env node
      in if IntLike \<in> flags type then Inr (Value (ConstantInt (Number node_text)) type)
         else if NumberLike \<in> flags type then Inr (Value (ConstantFP (Number node_text)) type)
         else Inl (unsupportedLiteralType node (typeToString env type)))"

section \<open>Prefix unary expressions (prefix-unary-expression-code-generator.ts)\<close>

text \<open>
  The \<^verbatim>\<open>switch\<close> over the operator. Its value is the variable \<^verbatim>\<open>result\<close> when
  the statement is left: \<open>None\<close> is \<^verbatim>\<open>undefined\<close>, which is what \<^verbatim>\<open>result\<close> holds
  when no branch assigned it. The constants 1 and 1.0 are the same JavaScript number.
\<close>

fun generate_switch ::
  "Collaborators \<Rightarrow> PrefixUnaryOperator \<Rightarrow> Value \<Rightarrow> ts_Type \<Rightarrow> ts_Type \<Rightarrow>
   Diagnostic + llvm_Value option" where
  "generate_switch env ExclamationToken left operandType resultType =
     (case toBoolean env left operandType of
        Inl e \<Rightarrow> Inl e
      | Inr booleanValue \<Rightarrow> Inr (Some (createNot booleanValue ''not'')))"
| "generate_switch env MinusToken left operandType resultType =
     Inr (if IntLike \<in> flags operandType then Some (createNeg (generateIR left) ''neg'')
          else if NumberLike \<in> flags operandType then Some (createFNeg (generateIR left) ''neg'')
          else None)"
| "generate_switch env MinusMinusToken left operandType resultType =
     Inr (if IntLike \<in> flags operandType
          then Some (createSub (generateIR left) (ConstantInt (Number ''1'')) ''sub'')
          else if NumberLike \<in> flags operandType
          then Some (createFSub (generateIR left) (ConstantFP (Number ''1'')) ''fsub'')
          else None)"
| "generate_switch env PlusToken left operandType resultType =
     Inr (if IntLike \<in> flags operandType \<or> NumberLike \<in> flags operandType
             \<or> BooleanLike \<in> flags operandType
          then (case castImplicit env left resultType of
                  Some castedToResultType \<Rightarrow> Some (generateIR castedToResultType)
                | None \<Rightarrow> None)
          else None)"
| "generate_switch env PlusPlusToken left operandType resultType =
     Inr (if IntLike \<in> flags operandType
          then Some (createAdd (generateIR left) (ConstantInt (Number ''1'')) ''add'')
          else if NumberLike \<in> flags operandType
          then Some (createFAdd (generateIR left) (ConstantFP (Number ''1'')) ''fadd'')
          else None)"
| "generate_switch env TildeToken left operandType resultType =
     (case toInt32 env left operandType resultType of
        Inl e \<Rightarrow> Inl e
      | Inr int32 \<Rightarrow> Inr (Some (createNot (generateIR int32) ''not'')))"

fun PrefixUnaryExpressionCodeGenerator_generate ::
  "Collaborators \<Rightarrow> ts_Node \<Rightarrow> CodeGenerationContext \<Rightarrow>
   Diagnostic + Value \<times> CodeGenerationContext" where
  "PrefixUnaryExpressionCodeGenerator_generate env (PrefixUnaryExpression pos operator operand)
     context =
     (let node = PrefixUnaryExpression pos operator operand in
      case generateValue env operand context of
        Inl e \<Rightarrow> Inl e
      | Inr (left, context1) \<Rightarrow>
          (let operandType = getTypeAtLocation env operand;
              resultType = getTypeAtLocation env node
          in (case generate_switch env operator left operandType resultType of
                Inl e \<Rightarrow> Inl e
              | Inr None \<Rightarrow>
                  Inl (unsupportedUnaryOperation node (typeToString env operandType))
              | Inr (Some result) \<Rightarrow>
                  (let resultValue = Value result resultType
                   in if operator = PlusPlusToken \<or> operator = MinusMinusToken
                      then (case assignValue env left resultValue context1 of
                              Inl e \<Rightarrow> Inl e
                            | Inr context2 \<Rightarrow> Inr (resultValue, context2))
                      else Inr (resultValue, context1)))))"

section \<open>The Array class (array-class-reference.ts)\<close>

definition getLLVMArrayElementType :: "Collaborators \<Rightarrow> ts_Type \<Rightarrow> Diagnostic + llvm_Type" where
  "getLLVMArrayElementType env tsElementType =
     (let tsElementType' =
            (if isMaybeObjectType env tsElementType then getNonNullableType env tsElementType
             else tsElementType)
      in if Object \<in> flags tsElementType' then Inr (PointerTy Int8Ty)
         else if BooleanLike \<in> flags tsElementType' then Inr Int8Ty
         else toLLVMType env tsElementType')"

text \<open>
  \<^verbatim>\<open>type.getSymbol().getDeclarations()[0].getSourceFile()\<close> raises the run-time
  \<open>TypeError\<close> when the symbol or its first declaration is \<^verbatim>\<open>undefined\<close>.
\<close>

definition fromLiteral ::
  "Collaborators \<Rightarrow> ts_Type \<Rightarrow> llvm_Value list \<Rightarrow> CodeGenerationContext \<Rightarrow>
   Diagnostic + Value \<times> CodeGenerationContext" where
  "fromLiteral env type elements context =
     (let parameters' = [createResolvedParameter ''items'' type False None True] in
      case getSymbol type of
        None \<Rightarrow> Inl TypeError
      | Some type_symbol \<Rightarrow>
          (case getDeclarations type_symbol of
             [] \<Rightarrow> Inl TypeError
           | first_declaration # _ \<Rightarrow>
               (let resolvedConstructor =
                      createResolvedFunction ''constructor'' [] parameters' type
                        (Some (getSourceFile first_declaration)) (Some type) False False
                in (case ResolvedFunctionReference_createRuntimeFunction env
                          resolvedConstructor context of
                      Inl e \<Rightarrow> Inl e
                    | Inr (constructorFunction, context1) \<Rightarrow>
                        invokeWith env constructorFunction elements
                          (context1\<lparr>requiresGc := True\<rparr>)))))"

text \<open>
  The constructor of \<^verbatim>\<open>fromCArray\<close> is declared in the module when the module does not
  have it yet; \<open>declareConstructor\<close> is that \<^verbatim>\<open>if\<close> statement.
\<close>

definition declareConstructor ::
  "Collaborators \<Rightarrow> ts_Type \<Rightarrow> string \<Rightarrow> CodeGenerationContext \<Rightarrow>
   Diagnostic + llvm_Function \<times> CodeGenerationContext" where
  "declareConstructor env type constructorName context =
     (case module context constructorName of
        Some constructorFn \<Rightarrow> Inr (constructorFn, context)
      | None \<Rightarrow>
          (case getLLVMArrayElementType env (getArrayElementType env type) of
             Inl e \<Rightarrow> Inl e
           | Inr elementType \<Rightarrow>
               (case toLLVMType env type of
                  Inl e \<Rightarrow> Inl e
                | Inr arrayType \<Rightarrow>
                    let constructorType =
                          FunctionTy arrayType [PointerTy elementType, Int32Ty] False;
                        constructorFn =
                          Function constructorType ExternalLinkage constructorName [AlwaysInline]
                    in Inr (constructorFn,
                            context\<lparr>module := (module context)(constructorName \<mapsto> constructorFn)\<rparr>))))"

definition fromCArray ::
  "Collaborators \<Rightarrow> ts_Type \<Rightarrow> llvm_Value \<Rightarrow> llvm_Value \<Rightarrow> CodeGenerationContext \<Rightarrow>
   Diagnostic + Value \<times> CodeGenerationContext" where
  "fromCArray env type elementsPtr length' context =
     (let constructorName = mangleMethodName env type ''constructor'' [type] in
      case declareConstructor env type constructorName context of
        Inl e \<Rightarrow> Inl e
      | Inr (constructorFn, context1) \<Rightarrow>
          let arrayPtr = createCall constructorFn [elementsPtr, length']
          in Inr (Value arrayPtr type, context1\<lparr>requiresGc := True\<rparr>))"

definition getConstructor ::
  "Collaborators \<Rightarrow> ts_Node \<Rightarrow> CodeGenerationContext \<Rightarrow>
   Diagnostic + FunctionReference \<times> CodeGenerationContext" where
  "getConstructor env newExpression context =
     (let constructorSignature = getResolvedSignature env newExpression
      in UnresolvedFunctionReference_createRuntimeFunction env [constructorSignature]
           (context\<lparr>requiresGc := True\<rparr>))"


section \<open>Functions marked with "use speedyjs" (SpeedyJSFunctionFactory)\<close>


section \<open>The built-in Math object (MathObjectReference)\<close>

text \<open>
  Modelled from the spec: \<^verbatim>\<open>throwUnsupportedBuiltIn\<close> is inherited from
  \<^verbatim>\<open>BuiltInObjectReference\<close>, which is not among these sources. The spec has an
  unrecognized member access on a built-in object fail with UnsupportedBuiltIn naming the
  object and the member.
\<close>

fun throwUnsupportedBuiltIn :: "ObjectReference \<Rightarrow> ts_Node \<Rightarrow> Diagnostic" where
  "throwUnsupportedBuiltIn this (PropertyAccessExpression pos expression member) =
     UnsupportedBuiltIn (PropertyAccessExpression pos expression member)
       (typeName this) member"

definition createFunctionFor ::
  "Collaborators \<Rightarrow> ObjectReference \<Rightarrow> ts_Symbol \<Rightarrow> ts_Signature list \<Rightarrow> ts_Node \<Rightarrow>
   CodeGenerationContext \<Rightarrow> Diagnostic + FunctionReference \<times> CodeGenerationContext" where
  "createFunctionFor env this symbol' signatures propertyAccessExpression context =
     (if symbol_name symbol' = ''pow'' \<or> symbol_name symbol' = ''sqrt''
         \<or> symbol_name symbol' = ''log'' \<or> symbol_name symbol' = ''sin''
         \<or> symbol_name symbol' = ''cos'' \<or> symbol_name symbol' = ''max''
      then UnresolvedMethodReference_createRuntimeMethod env this signatures
             \<lparr>readnone = True, noUnwind = True\<rparr> context
      else Inl (builtInMethodNotSupported propertyAccessExpression ''Math''
                  (symbol_name symbol')))"

definition createPropertyReference ::
  "ObjectReference \<Rightarrow> ts_Symbol \<Rightarrow> ts_Node \<Rightarrow> CodeGenerationContext \<Rightarrow>
   Diagnostic + ObjectPropertyReference" where
  "createPropertyReference this symbol' propertyAccess context =
     (if symbol_name symbol' = ''PI''
      then Inr (ComputedObjectPropertyReference propertyAccess this True True)
      else Inl (throwUnsupportedBuiltIn this propertyAccess))"

text \<open>
  \<^verbatim>\<open>powSymbol.valueDeclaration\<close> raises the run-time \<open>TypeError\<close> when the type of
  the Math object has no property \<^verbatim>\<open>pow\<close>.
\<close>

definition pow ::
  "Collaborators \<Rightarrow> Value \<Rightarrow> ts_Type \<Rightarrow> Value \<Rightarrow> ts_Type \<Rightarrow> ts_Type \<Rightarrow> CodeGenerationContext \<Rightarrow>
   Diagnostic + Value \<times> CodeGenerationContext" where
  "pow env lhs lhsType rhs rhsType numberType context =
     (let mathSymbol = builtIns env ''Math'' in
      case getVariable env mathSymbol context of
        Inl e \<Rightarrow> Inl e
      | Inr mathAllocation \<Rightarrow>
          (let mathObject = dereference env mathAllocation context in
           (case getProperty env (object_type mathObject) ''pow'' of
              None \<Rightarrow> Inl TypeError
            | Some powSymbol \<Rightarrow>
                (let powSignature =
                       getSignatureFromDeclaration env (valueDeclaration powSymbol)
                 in (case UnresolvedMethodReference_createRuntimeMethod env mathObject
                           [powSignature] \<lparr>readnone = True, noUnwind = True\<rparr> context of
                       Inl e \<Rightarrow> Inl e
                     | Inr (method, context1) \<Rightarrow>
                         (case toNumber env lhs lhsType numberType of
                            Inl e \<Rightarrow> Inl e
                          | Inr lhsNumber \<Rightarrow>
                              (case toNumber env rhs rhsType numberType of
                                 Inl e \<Rightarrow> Inl e
                               | Inr rhsNumber \<Rightarrow>
                                   invokeWith env method
                                     [generateIR lhsNumber, generateIR rhsNumber]
                                     context1)))))))"

section \<open>Collaborators modelled from the spec\<close>

text \<open>
  Modelled from the spec: \<^verbatim>\<open>Primitive.toNumber\<close> is not among these sources. The spec
  has the widening from integer-like to floating-point-like always succeed, identical
  static types convert as a no-op, and every other attempt to convert fail.
\<close>

definition Primitive_toNumber :: "Value \<Rightarrow> ts_Type \<Rightarrow> ts_Type \<Rightarrow> Diagnostic + Value" where
  "Primitive_toNumber v type numberType =
     (if IntLike \<in> flags type then Inr (Value (SIToFP (generateIR v)) numberType)
      else if NumberLike \<in> flags type then Inr v
      else Inl (OtherDiagnostic ''unsupported cast''))"

text \<open>
  Modelled from the spec: \<^verbatim>\<open>UnresolvedMethodReference.createRuntimeMethod\<close> and
  \<^verbatim>\<open>invokeWith\<close> are not among these sources. The spec has a built-in function
  resolve to a pre-declared external symbol instead of a generated body, and the call
  of a selected intrinsic carry its purity attribution: the call is that of the
  reference, which holds the attribution, and it has the return type of the signature.
\<close>

definition createRuntimeMethod ::
  "ObjectReference \<Rightarrow> ts_Signature list \<Rightarrow> FunctionProperties \<Rightarrow> CodeGenerationContext \<Rightarrow>
   Diagnostic + FunctionReference \<times> CodeGenerationContext" where
  "createRuntimeMethod this signatures properties context =
     Inr (UnresolvedMethodReference this signatures properties, context)"

fun resolvedReturnType :: "FunctionReference \<Rightarrow> ts_Type option" where
  "resolvedReturnType (ResolvedFunctionReference resolvedFunction) =
     Some (returnType resolvedFunction)"
| "resolvedReturnType (UnresolvedFunctionReference []) = None"
| "resolvedReturnType (UnresolvedFunctionReference (signature # _)) =
     Some (getReturnType signature)"
| "resolvedReturnType (UnresolvedMethodReference this [] properties) = None"
| "resolvedReturnType (UnresolvedMethodReference this (signature # _) properties) =
     Some (getReturnType signature)"

definition FunctionReference_invokeWith ::
  "FunctionReference \<Rightarrow> llvm_Value list \<Rightarrow> CodeGenerationContext \<Rightarrow>
   Diagnostic + Value \<times> CodeGenerationContext" where
  "FunctionReference_invokeWith reference args context =
     (case resolvedReturnType reference of
        None \<Rightarrow> Inl (OtherDiagnostic ''no signature'')
      | Some type \<Rightarrow> Inr (Value (RuntimeCall reference args) type, context))"

section \<open>A sample front end and runtime\<close>

text \<open>
  One instance of the collaborators, to evaluate the definitions at concrete inputs:
  a program with the variables \<open>i\<close> (int), \<open>x\<close> (number) and \<open>b\<close> (boolean),
  every other identifier a string, the nullable types \<open>int[] | undefined\<close> and
  \<open>int | undefined\<close>, and arrays of int, of boolean, of nullable arrays and of
  strings. Nothing is claimed about the program through this instance.
\<close>

definition int_type :: ts_Type where
  "int_type = Type 1 {IntLike} None"

definition number_type :: ts_Type where
  "number_type = Type 2 {NumberLike} None"

definition boolean_type :: ts_Type where
  "boolean_type = Type 3 {BooleanLike} None"

definition string_type :: ts_Type where
  "string_type = Type 4 {} None"

definition array_symbol :: ts_Symbol where
  "array_symbol = Symbol ''Array'' [Declaration (SourceFile ''lib.es2015.d.ts'')] None"

definition int_array_type :: ts_Type where
  "int_array_type = Type 5 {Object} (Some array_symbol)"

definition maybe_int_array_type :: ts_Type where
  "maybe_int_array_type = Type 6 {} None"

definition boolean_array_type :: ts_Type where
  "boolean_array_type = Type 7 {Object} (Some array_symbol)"




definition math_type :: ts_Type where
  "math_type =
     Type 9 {Object} (Some (Symbol ''Math'' [Declaration (SourceFile ''lib.es2015.d.ts'')] None))"

definition pow_symbol :: ts_Symbol where
  "pow_symbol =
     Symbol ''pow'' [Declaration (SourceFile ''lib.es2015.d.ts'')]
       (Some (Declaration (SourceFile ''lib.es2015.d.ts'')))"

fun sample_getTypeAtLocation :: "ts_Node \<Rightarrow> ts_Type" where
  "sample_getTypeAtLocation (Identifier pos identifier) =
     (if identifier = ''i'' then int_type
      else if identifier = ''x'' then number_type
      else if identifier = ''b'' then boolean_type
      else string_type)"
| "sample_getTypeAtLocation (FirstLiteralToken pos node_text) =
     (if node_text = [] then string_type
      else if CHR ''.'' \<in> set node_text then number_type
      else int_type)"
| "sample_getTypeAtLocation (PrefixUnaryExpression pos operator operand) =
     (if operator = ExclamationToken then boolean_type else sample_getTypeAtLocation operand)"
| "sample_getTypeAtLocation (PropertyAccessExpression pos expression member) = number_type"
| "sample_getTypeAtLocation (NewExpression pos expression arguments) = int_array_type"

definition sample_typeToString :: "ts_Type \<Rightarrow> string" where
  "sample_typeToString type =
     (if type_id type = 1 then ''int''
      else if type_id type = 2 then ''number''
      else if type_id type = 3 then ''boolean''
      else if type_id type = 4 then ''string''
      else ''object'')"

definition sample_getArrayElementType :: "ts_Type \<Rightarrow> ts_Type" where
  "sample_getArrayElementType type =
     (if type_id type = 5 then int_type
      else if type_id type = 7 then boolean_type
      else if type_id type = 8 then maybe_int_array_type
      else string_type)"

definition sample_toLLVMType :: "ts_Type \<Rightarrow> Diagnostic + llvm_Type" where
  "sample_toLLVMType type =
     (if IntLike \<in> flags type then Inr Int32Ty
      else if NumberLike \<in> flags type then Inr DoubleTy
      else if BooleanLike \<in> flags type then Inr Int1Ty
      else if Object \<in> flags type then Inr (PointerTy (StructTy ''class.Array'' []))
      else Inl (OtherDiagnostic ''unsupported type''))"

fun sample_generateValue ::
  "ts_Node \<Rightarrow> CodeGenerationContext \<Rightarrow> Diagnostic + Value \<times> CodeGenerationContext" where
  "sample_generateValue (Identifier pos identifier) context =
     Inr (Value (Operand pos) (sample_getTypeAtLocation (Identifier pos identifier)), context)"
| "sample_generateValue node context = Inl (OtherDiagnostic ''unsupported syntax'')"

definition sample_castImplicit :: "Value \<Rightarrow> ts_Type \<Rightarrow> Value option" where
  "sample_castImplicit v type =
     (if value_type v = type then Some v
      else if IntLike \<in> flags (value_type v) \<and> NumberLike \<in> flags type
      then Some (Value (SIToFP (generateIR v)) type)
      else None)"

definition sample :: Collaborators where
  "sample =
     \<lparr>getTypeAtLocation = sample_getTypeAtLocation,
      typeToString = sample_typeToString,
      getResolvedSignature = (\<lambda>node. Signature 0 int_array_type),
      getSignatureFromDeclaration = (\<lambda>declaration. Signature 1 number_type),
      getProperty = (\<lambda>type member. if member = ''pow'' then Some pow_symbol else None),
      getNonNullableType =
        (\<lambda>type. if type_id type = 6 then int_array_type
                else if type_id type = 10 then int_type
                else type),
      isMaybeObjectType = (\<lambda>type. type_id type = 6),
      getArrayElementType = sample_getArrayElementType,
      toLLVMType = sample_toLLVMType,
      mangleMethodName = (\<lambda>type member types. ''Array_'' @ member),
      builtIns = (\<lambda>builtIn. if builtIn = ''Math'' then Some (Symbol ''Math'' [] None) else None),
      getVariable =
        (\<lambda>variable context.
           case variable of
             None \<Rightarrow> Inl (OtherDiagnostic ''unknown variable'')
           | Some variable_symbol \<Rightarrow> Inr (Value (Operand 0) math_type)),
      dereference = (\<lambda>v context. MathObjectReference 0 (value_type v)),
      generateValue = sample_generateValue,
      assignValue =
        (\<lambda>target v context. Inr (context\<lparr>assigned := assigned context @ [(target, v)]\<rparr>)),
      castImplicit = sample_castImplicit,
      toBoolean =
        (\<lambda>v type.
           if BooleanLike \<in> flags type then Inr (generateIR v)
           else Inl (OtherDiagnostic ''unsupported cast'')),
      toInt32 =
        (\<lambda>v type resultType.
           if IntLike \<in> flags type then Inr v else Inl (OtherDiagnostic ''unsupported cast'')),
      toNumber = Primitive_toNumber,
      ResolvedFunctionReference_createRuntimeFunction =
        (\<lambda>resolvedFunction context. Inr (ResolvedFunctionReference resolvedFunction, context)),
      UnresolvedFunctionReference_createRuntimeFunction =
        (\<lambda>signatures context. Inr (UnresolvedFunctionReference signatures, context)),
      UnresolvedMethodReference_createRuntimeMethod = createRuntimeMethod,
      invokeWith = FunctionReference_invokeWith\<rparr>"

text \<open>
  A second instance, whose conversions to boolean and to int32 accept every operand.
\<close>

definition permissive :: Collaborators where
  "permissive =
     sample\<lparr>toBoolean := (\<lambda>v type. Inr (generateIR v)),
            toInt32 := (\<lambda>v type resultType. Inr v)\<rparr>"

definition new_context :: CodeGenerationContext where
  "new_context = \<lparr>requiresGc = False, module = Map.empty, assigned = []\<rparr>"





section \<open>Compilations, the cache of array types, and what is assumed of collaborators\<close>

text \<open>
  One compilation, as far as these sources take part in it, is a sequence of calls of
  their entry points on the one context of the compilation; the first call that fails
  aborts it. \<open>allocating\<close> are the calls that construct an array.
\<close>

datatype GenerationStep =
    FromLiteral ts_Type "llvm_Value list"
  | FromCArray ts_Type llvm_Value llvm_Value
  | GetConstructor ts_Node
  | GeneratePrefixUnary nat PrefixUnaryOperator ts_Node
  | GenerateLiteral nat string
  | MathPow Value ts_Type Value ts_Type ts_Type
  | MathFunction ObjectReference ts_Symbol "ts_Signature list" ts_Node

fun generation_step ::
  "Collaborators \<Rightarrow> GenerationStep \<Rightarrow> CodeGenerationContext \<Rightarrow>
   Diagnostic + CodeGenerationContext" where
  "generation_step env (FromLiteral type elements) context =
     map_sum id snd (fromLiteral env type elements context)"
| "generation_step env (FromCArray type elementsPtr length') context =
     map_sum id snd (fromCArray env type elementsPtr length' context)"
| "generation_step env (GetConstructor newExpression) context =
     map_sum id snd (getConstructor env newExpression context)"
| "generation_step env (GeneratePrefixUnary pos operator operand) context =
     map_sum id snd
       (PrefixUnaryExpressionCodeGenerator_generate env
          (PrefixUnaryExpression pos operator operand) context)"
| "generation_step env (GenerateLiteral pos node_text) context =
     map_sum id (\<lambda>literal. context)
       (FirstLiteralTokenCodeGenerator_generate env (FirstLiteralToken pos node_text) context)"
| "generation_step env (MathPow lhs lhsType rhs rhsType numberType) context =
     map_sum id snd (pow env lhs lhsType rhs rhsType numberType context)"
| "generation_step env (MathFunction this symbol' signatures propertyAccessExpression)
     context =
     map_sum id snd
       (createFunctionFor env this symbol' signatures propertyAccessExpression context)"

fun compilation ::
  "Collaborators \<Rightarrow> GenerationStep list \<Rightarrow> CodeGenerationContext \<Rightarrow>
   Diagnostic + CodeGenerationContext" where
  "compilation env [] context = Inr context"
| "compilation env (step # steps) context =
     (case generation_step env step context of
        Inl e \<Rightarrow> Inl e
      | Inr context1 \<Rightarrow> compilation env steps context1)"

fun allocating :: "GenerationStep \<Rightarrow> bool" where
  "allocating (FromLiteral type elements) = True"
| "allocating (FromCArray type elementsPtr length') = True"
| "allocating (GetConstructor newExpression) = True"
| "allocating step = False"

text \<open>
  The collaborators are outside these sources, so what they do to the flag is a
  hypothesis: \<open>keeps_requiresGc env\<close> says that no collaborator that returns a context
  returns one with the flag cleared when it was set.
\<close>

definition keeps_requiresGc :: "Collaborators \<Rightarrow> bool" where
  "keeps_requiresGc env \<longleftrightarrow>
     (\<forall>node context v context'.
        generateValue env node context = Inr (v, context') \<longrightarrow>
        requiresGc context \<longrightarrow> requiresGc context') \<and>
     (\<forall>target v context context'.
        assignValue env target v context = Inr context' \<longrightarrow>
        requiresGc context \<longrightarrow> requiresGc context') \<and>
     (\<forall>resolvedFunction context reference context'.
        ResolvedFunctionReference_createRuntimeFunction env resolvedFunction context =
          Inr (reference, context') \<longrightarrow>
        requiresGc context \<longrightarrow> requiresGc context') \<and>
     (\<forall>signatures context reference context'.
        UnresolvedFunctionReference_createRuntimeFunction env signatures context =
          Inr (reference, context') \<longrightarrow>
        requiresGc context \<longrightarrow> requiresGc context') \<and>
     (\<forall>this signatures properties context reference context'.
        UnresolvedMethodReference_createRuntimeMethod env this signatures properties context =
          Inr (reference, context') \<longrightarrow>
        requiresGc context \<longrightarrow> requiresGc context') \<and>
     (\<forall>reference args context v context'.
        invokeWith env reference args context = Inr (v, context') \<longrightarrow>
        requiresGc context \<longrightarrow> requiresGc context')"


section \<open>Numeric literals: the constant follows the static type\<close>

text \<open>
  C9. Generating a numeric literal whose resolved type is neither integer-like nor
  floating-point-like fails with the diagnostic for an invalid literal, built from the
  node (its source location) and the printed name of the type. A literal of integer-like
  type yields the integer constant of its text, and one of floating-point-like type
  (tested second, so not integer-like) yields the floating-point constant of its text,
  both paired with the resolved type.
\<close>

theorem literal_follows_static_type:
  "(IntLike \<notin> flags (getTypeAtLocation env (FirstLiteralToken pos node_text)) \<and>
    NumberLike \<notin> flags (getTypeAtLocation env (FirstLiteralToken pos node_text)) \<longrightarrow>
      FirstLiteralTokenCodeGenerator_generate env (FirstLiteralToken pos node_text) context =
        Inl (unsupportedLiteralType (FirstLiteralToken pos node_text)
               (typeToString env (getTypeAtLocation env (FirstLiteralToken pos node_text))))) \<and>
   (IntLike \<in> flags (getTypeAtLocation env (FirstLiteralToken pos node_text)) \<longrightarrow>
      FirstLiteralTokenCodeGenerator_generate env (FirstLiteralToken pos node_text) context =
        Inr (Value (ConstantInt (Number node_text))
               (getTypeAtLocation env (FirstLiteralToken pos node_text)))) \<and>
   (NumberLike \<in> flags (getTypeAtLocation env (FirstLiteralToken pos node_text)) \<and>
    IntLike \<notin> flags (getTypeAtLocation env (FirstLiteralToken pos node_text)) \<longrightarrow>
      FirstLiteralTokenCodeGenerator_generate env (FirstLiteralToken pos node_text) context =
        Inr (Value (ConstantFP (Number node_text))
               (getTypeAtLocation env (FirstLiteralToken pos node_text))))"
  by (simp add: Let_def)

theorem literal_follows_static_type_witness:
  "FirstLiteralTokenCodeGenerator_generate sample (FirstLiteralToken 7 []) new_context =
     Inl (unsupportedLiteralType (FirstLiteralToken 7 []) ''string'') \<and>
   FirstLiteralTokenCodeGenerator_generate sample (FirstLiteralToken 8 ''42'') new_context =
     Inr (Value (ConstantInt (Number ''42'')) int_type) \<and>
   FirstLiteralTokenCodeGenerator_generate sample (FirstLiteralToken 9 ''1.5'') new_context =
     Inr (Value (ConstantFP (Number ''1.5'')) number_type)"
  using literal_follows_static_type [of sample 7 "[]" new_context]
    literal_follows_static_type [of sample 8 "''42''" new_context]
    literal_follows_static_type [of sample 9 "''1.5''" new_context]
  by (simp add: sample_def sample_typeToString_def int_type_def number_type_def
      string_type_def)

section \<open>Prefix unary expressions: lowering, failure and assignment\<close>

lemma generate_after_operand:
  assumes "generateValue env operand context = Inr (left, context1)"
  shows "PrefixUnaryExpressionCodeGenerator_generate env
           (PrefixUnaryExpression pos operator operand) context =
         (case generate_switch env operator left (getTypeAtLocation env operand)
                 (getTypeAtLocation env (PrefixUnaryExpression pos operator operand)) of
            Inl e \<Rightarrow> Inl e
          | Inr None \<Rightarrow>
              Inl (unsupportedUnaryOperation (PrefixUnaryExpression pos operator operand)
                     (typeToString env (getTypeAtLocation env operand)))
          | Inr (Some result) \<Rightarrow>
              (if operator = PlusPlusToken \<or> operator = MinusMinusToken
               then (case assignValue env left
                            (Value result
                               (getTypeAtLocation env
                                  (PrefixUnaryExpression pos operator operand)))
                            context1 of
                       Inl e \<Rightarrow> Inl e
                     | Inr context2 \<Rightarrow>
                         Inr (Value result
                                (getTypeAtLocation env
                                   (PrefixUnaryExpression pos operator operand)),
                              context2))
               else Inr (Value result
                           (getTypeAtLocation env
                              (PrefixUnaryExpression pos operator operand)),
                         context1)))"
  using assms by (simp add: Let_def split: sum.splits option.splits)

text \<open>
  C6, as stated, fails for \<open>!\<close> and \<open>~\<close>. A string is not integer-like,
  floating-point-like or boolean-like, so no family of instructions applies to it, but
  the generator does not test the classification for these two operators: it hands the
  operand to the conversion. Where the conversion refuses the operand, generation fails
  with the diagnostic of the conversion, which is not the one for an unsupported unary
  operation; where the conversion accepts it, the \<open>not\<close> instruction is emitted.
\<close>

theorem negation_is_not_refused_by_classification:
  "flags (getTypeAtLocation sample (Identifier 3 ''s'')) = {} \<and>
   flags (getTypeAtLocation permissive (Identifier 3 ''s'')) = {} \<and>
   PrefixUnaryExpressionCodeGenerator_generate sample
     (PrefixUnaryExpression 2 TildeToken (Identifier 3 ''s'')) new_context =
     Inl (OtherDiagnostic ''unsupported cast'') \<and>
   PrefixUnaryExpressionCodeGenerator_generate sample
     (PrefixUnaryExpression 2 ExclamationToken (Identifier 3 ''s'')) new_context =
     Inl (OtherDiagnostic ''unsupported cast'') \<and>
   OtherDiagnostic ''unsupported cast'' \<noteq>
     unsupportedUnaryOperation (PrefixUnaryExpression 2 TildeToken (Identifier 3 ''s''))
       ''string'' \<and>
   PrefixUnaryExpressionCodeGenerator_generate permissive
     (PrefixUnaryExpression 2 TildeToken (Identifier 3 ''s'')) new_context =
     Inr (Value (createNot (Operand 3) ''not'') string_type, new_context) \<and>
   PrefixUnaryExpressionCodeGenerator_generate permissive
     (PrefixUnaryExpression 2 ExclamationToken (Identifier 3 ''s'')) new_context =
     Inr (Value (createNot (Operand 3) ''not'') boolean_type, new_context)"
  by (simp add: permissive_def sample_def string_type_def Let_def)

text \<open>
  C6, amended. When the operand has been generated: for \<open>-\<close>, \<open>--\<close> and \<open>++\<close> on an
  operand that is neither integer-like nor floating-point-like, and for \<open>+\<close> on an
  operand that is not integer-like, floating-point-like or boolean-like, or that has no
  implicit cast to the type of the result, generation fails with the diagnostic for an
  unsupported unary operation, built from the node (which holds the operator) and the
  printed static type of the operand. For \<open>!\<close> and \<open>~\<close> the classification of the
  operand is not tested: the operand is handed to the conversion to boolean or to
  int32, generation fails exactly when the conversion does, with the diagnostic of the
  conversion, and otherwise the \<open>not\<close> of the converted operand is the result. In no
  case is the node skipped.
\<close>

theorem unsupported_operation_fails:
  assumes "generateValue env operand context = Inr (left, context1)"
    and "operandType = getTypeAtLocation env operand"
    and "resultType = getTypeAtLocation env (PrefixUnaryExpression pos operator operand)"
    and "generated =
           PrefixUnaryExpressionCodeGenerator_generate env
             (PrefixUnaryExpression pos operator operand) context"
  shows
    "((operator \<in> {MinusToken, MinusMinusToken, PlusPlusToken} \<and>
       IntLike \<notin> flags operandType \<and> NumberLike \<notin> flags operandType) \<or>
      (operator = PlusToken \<and>
       ((IntLike \<notin> flags operandType \<and> NumberLike \<notin> flags operandType \<and>
         BooleanLike \<notin> flags operandType) \<or>
        castImplicit env left resultType = None)) \<longrightarrow>
        generated =
          Inl (unsupportedUnaryOperation (PrefixUnaryExpression pos operator operand)
                 (typeToString env operandType))) \<and>
     (operator = ExclamationToken \<longrightarrow>
        generated =
          (case toBoolean env left operandType of
             Inl e \<Rightarrow> Inl e
           | Inr booleanValue \<Rightarrow>
               Inr (Value (createNot booleanValue ''not'') resultType, context1))) \<and>
     (operator = TildeToken \<longrightarrow>
        generated =
          (case toInt32 env left operandType resultType of
             Inl e \<Rightarrow> Inl e
           | Inr int32 \<Rightarrow>
               Inr (Value (createNot (generateIR int32) ''not'') resultType, context1)))"
proof -
  have refused:
    "(operator \<in> {MinusToken, MinusMinusToken, PlusPlusToken} \<and>
       IntLike \<notin> flags operandType \<and> NumberLike \<notin> flags operandType) \<or>
      (operator = PlusToken \<and>
       ((IntLike \<notin> flags operandType \<and> NumberLike \<notin> flags operandType \<and>
         BooleanLike \<notin> flags operandType) \<or>
        castImplicit env left resultType = None)) \<longrightarrow>
     generate_switch env operator left operandType resultType = Inr None"
    by (cases operator) auto
  have negation:
    "operator = ExclamationToken \<longrightarrow>
     generate_switch env operator left operandType resultType =
       (case toBoolean env left operandType of
          Inl e \<Rightarrow> Inl e
        | Inr booleanValue \<Rightarrow> Inr (Some (createNot booleanValue ''not'')))"
    "operator = TildeToken \<longrightarrow>
     generate_switch env operator left operandType resultType =
       (case toInt32 env left operandType resultType of
          Inl e \<Rightarrow> Inl e
        | Inr int32 \<Rightarrow> Inr (Some (createNot (generateIR int32) ''not'')))"
    by simp_all
  show ?thesis
    unfolding assms(4) generate_after_operand [OF assms(1)]
    using refused negation
    by (auto simp add: assms(2,3) split: sum.splits)
qed

theorem unsupported_operation_fails_witness:
  "generateValue sample (Identifier 3 ''b'') new_context =
     Inr (Value (Operand 3) boolean_type, new_context) \<and>
   PrefixUnaryExpressionCodeGenerator_generate sample
     (PrefixUnaryExpression 2 MinusMinusToken (Identifier 3 ''b'')) new_context =
     Inl (unsupportedUnaryOperation (PrefixUnaryExpression 2 MinusMinusToken (Identifier 3 ''b''))
            ''boolean'') \<and>
   PrefixUnaryExpressionCodeGenerator_generate sample
     (PrefixUnaryExpression 2 PlusToken (Identifier 3 ''s'')) new_context =
     Inl (unsupportedUnaryOperation (PrefixUnaryExpression 2 PlusToken (Identifier 3 ''s''))
            ''string'') \<and>
   PrefixUnaryExpressionCodeGenerator_generate sample
     (PrefixUnaryExpression 2 ExclamationToken (Identifier 3 ''b'')) new_context =
     Inr (Value (createNot (Operand 3) ''not'') boolean_type, new_context) \<and>
   PrefixUnaryExpressionCodeGenerator_generate sample
     (PrefixUnaryExpression 2 TildeToken (Identifier 3 ''b'')) new_context =
     Inl (OtherDiagnostic ''unsupported cast'')"
proof -
  have b: "generateValue sample (Identifier 3 ''b'') new_context =
             Inr (Value (Operand 3) boolean_type, new_context)"
    by (simp add: sample_def)
  have s: "generateValue sample (Identifier 3 ''s'') new_context =
             Inr (Value (Operand 3) string_type, new_context)"
    by (simp add: sample_def)
  have types: "getTypeAtLocation sample (Identifier 3 ''b'') = boolean_type"
    "getTypeAtLocation sample (Identifier 3 ''s'') = string_type"
    by (simp_all add: sample_def)
  have decrement: "PrefixUnaryExpressionCodeGenerator_generate sample
     (PrefixUnaryExpression 2 MinusMinusToken (Identifier 3 ''b'')) new_context =
     Inl (unsupportedUnaryOperation (PrefixUnaryExpression 2 MinusMinusToken (Identifier 3 ''b''))
            ''boolean'')"
    using unsupported_operation_fails
        [OF b refl refl refl, where pos = 2 and operator = MinusMinusToken, THEN conjunct1]
    by (simp add: types boolean_type_def) (simp add: sample_def sample_typeToString_def)
  have plus: "PrefixUnaryExpressionCodeGenerator_generate sample
     (PrefixUnaryExpression 2 PlusToken (Identifier 3 ''s'')) new_context =
     Inl (unsupportedUnaryOperation (PrefixUnaryExpression 2 PlusToken (Identifier 3 ''s''))
            ''string'')"
    using unsupported_operation_fails
        [OF s refl refl refl, where pos = 2 and operator = PlusToken, THEN conjunct1]
    by (simp add: types string_type_def) (simp add: sample_def sample_typeToString_def)
  have negation: "PrefixUnaryExpressionCodeGenerator_generate sample
     (PrefixUnaryExpression 2 ExclamationToken (Identifier 3 ''b'')) new_context =
     Inr (Value (createNot (Operand 3) ''not'') boolean_type, new_context)"
    using unsupported_operation_fails
        [OF b refl refl refl, where pos = 2 and operator = ExclamationToken,
          THEN conjunct2, THEN conjunct1]
    by (simp add: types boolean_type_def) (simp add: sample_def boolean_type_def)
  have complement: "PrefixUnaryExpressionCodeGenerator_generate sample
     (PrefixUnaryExpression 2 TildeToken (Identifier 3 ''b'')) new_context =
     Inl (OtherDiagnostic ''unsupported cast'')"
    using unsupported_operation_fails
        [OF b refl refl refl, where pos = 2 and operator = TildeToken,
          THEN conjunct2, THEN conjunct2]
    by (simp add: types boolean_type_def) (simp add: sample_def boolean_type_def)
  from b decrement plus negation complement show ?thesis
    by (intro conjI)
qed

text \<open>
  C7. For the arithmetic operators \<open>-\<close>, \<open>++\<close> and \<open>--\<close> the instruction is chosen
  by the static classification of the operand alone: an integer-like operand gives
  \<open>neg\<close>, \<open>add\<close> 1 or \<open>sub\<close> 1 on the operand, and a floating-point-like operand
  (tested second, so not integer-like) gives \<open>fneg\<close>, \<open>fadd\<close> 1.0 or \<open>fsub\<close> 1.0. The
  result is that single instruction applied to the operand that was read: no test of a
  type at run time is part of it. For \<open>++\<close> and \<open>--\<close> the instruction is the value that
  is assigned back, and generation succeeds when the assignment does.
\<close>

theorem arithmetic_instruction_by_classification:
  assumes "generateValue env operand context = Inr (left, context1)"
    and "operandType = getTypeAtLocation env operand"
    and "resultType = getTypeAtLocation env (PrefixUnaryExpression pos operator operand)"
    and "generated =
           PrefixUnaryExpressionCodeGenerator_generate env
             (PrefixUnaryExpression pos operator operand) context"
    and "assigning = (\<lambda>result.
           case assignValue env left (Value result resultType) context1 of
             Inl e \<Rightarrow> Inl e
           | Inr context2 \<Rightarrow> Inr (Value result resultType, context2))"
  shows
    "(operator = MinusToken \<and> IntLike \<in> flags operandType \<longrightarrow>
        generated = Inr (Value (createNeg (generateIR left) ''neg'') resultType, context1)) \<and>
     (operator = MinusToken \<and> NumberLike \<in> flags operandType \<and>
      IntLike \<notin> flags operandType \<longrightarrow>
        generated = Inr (Value (createFNeg (generateIR left) ''neg'') resultType, context1)) \<and>
     (operator = PlusPlusToken \<and> IntLike \<in> flags operandType \<longrightarrow>
        generated =
        assigning (createAdd (generateIR left) (ConstantInt (Number ''1'')) ''add'')) \<and>
     (operator = PlusPlusToken \<and> NumberLike \<in> flags operandType \<and>
      IntLike \<notin> flags operandType \<longrightarrow>
        generated =
        assigning (createFAdd (generateIR left) (ConstantFP (Number ''1'')) ''fadd'')) \<and>
     (operator = MinusMinusToken \<and> IntLike \<in> flags operandType \<longrightarrow>
        generated =
        assigning (createSub (generateIR left) (ConstantInt (Number ''1'')) ''sub'')) \<and>
     (operator = MinusMinusToken \<and> NumberLike \<in> flags operandType \<and>
      IntLike \<notin> flags operandType \<longrightarrow>
        generated =
        assigning (createFSub (generateIR left) (ConstantFP (Number ''1'')) ''fsub''))"
  unfolding assms(4) assms(5) assms(2) assms(3) generate_after_operand [OF assms(1)]
  by (cases operator) (simp_all split: sum.splits)

theorem arithmetic_instruction_by_classification_witness:
  "generateValue sample (Identifier 3 ''i'') new_context =
     Inr (Value (Operand 3) int_type, new_context) \<and>
   PrefixUnaryExpressionCodeGenerator_generate sample
     (PrefixUnaryExpression 2 MinusToken (Identifier 3 ''i'')) new_context =
     Inr (Value (createNeg (Operand 3) ''neg'') int_type, new_context) \<and>
   PrefixUnaryExpressionCodeGenerator_generate sample
     (PrefixUnaryExpression 2 PlusPlusToken (Identifier 3 ''x'')) new_context =
     Inr (Value (createFAdd (Operand 3) (ConstantFP (Number ''1'')) ''fadd'') number_type,
          new_context\<lparr>assigned :=
            [(Value (Operand 3) number_type,
              Value (createFAdd (Operand 3) (ConstantFP (Number ''1'')) ''fadd'') number_type)]\<rparr>)"
proof -
  have i: "generateValue sample (Identifier 3 ''i'') new_context =
             Inr (Value (Operand 3) int_type, new_context)"
    by (simp add: sample_def)
  have x: "generateValue sample (Identifier 3 ''x'') new_context =
             Inr (Value (Operand 3) number_type, new_context)"
    by (simp add: sample_def)
  show ?thesis
    using i arithmetic_instruction_by_classification
        [OF i refl refl refl refl, where pos = 2 and operator = MinusToken]
      arithmetic_instruction_by_classification
        [OF x refl refl refl refl, where pos = 2 and operator = PlusPlusToken]
    by (simp add: sample_def int_type_def number_type_def new_context_def)
qed

text \<open>
  C10. When a prefix unary expression generates successfully, the operand was generated
  first, and then: for \<open>++\<close> and \<open>--\<close> the context that is returned is the one the
  assignment of the returned result to the operand's value leaves; for \<open>!\<close>, unary
  \<open>-\<close>, unary \<open>+\<close> and \<open>~\<close> no assignment is made and the context is the one the
  generation of the operand left.
\<close>

theorem operand_assigned_for_increment_only:
  assumes "PrefixUnaryExpressionCodeGenerator_generate env
             (PrefixUnaryExpression pos operator operand) context =
           Inr (resultValue, context')"
  shows "\<exists>left context1.
           generateValue env operand context = Inr (left, context1) \<and>
           (if operator = PlusPlusToken \<or> operator = MinusMinusToken
            then assignValue env left resultValue context1 = Inr context'
            else context' = context1)"
  using assms
  by (auto simp add: Let_def split: sum.splits option.splits prod.splits if_splits)

theorem operand_assigned_for_increment_only_witness:
  "PrefixUnaryExpressionCodeGenerator_generate sample
     (PrefixUnaryExpression 2 MinusMinusToken (Identifier 3 ''i'')) new_context =
     Inr (Value (createSub (Operand 3) (ConstantInt (Number ''1'')) ''sub'') int_type,
          new_context\<lparr>assigned :=
            [(Value (Operand 3) int_type,
              Value (createSub (Operand 3) (ConstantInt (Number ''1'')) ''sub'') int_type)]\<rparr>) \<and>
   (\<exists>left context1.
      generateValue sample (Identifier 3 ''i'') new_context = Inr (left, context1) \<and>
      assignValue sample left
        (Value (createSub (Operand 3) (ConstantInt (Number ''1'')) ''sub'') int_type) context1 =
      Inr (new_context\<lparr>assigned :=
            [(Value (Operand 3) int_type,
              Value (createSub (Operand 3) (ConstantInt (Number ''1'')) ''sub'') int_type)]\<rparr>)) \<and>
   PrefixUnaryExpressionCodeGenerator_generate sample
     (PrefixUnaryExpression 2 ExclamationToken (Identifier 3 ''b'')) new_context =
     Inr (Value (createNot (Operand 3) ''not'') boolean_type, new_context) \<and>
   (\<exists>left.
      generateValue sample (Identifier 3 ''b'') new_context = Inr (left, new_context))"
proof -
  have dec: "PrefixUnaryExpressionCodeGenerator_generate sample
               (PrefixUnaryExpression 2 MinusMinusToken (Identifier 3 ''i'')) new_context =
             Inr (Value (createSub (Operand 3) (ConstantInt (Number ''1'')) ''sub'') int_type,
                  new_context\<lparr>assigned :=
                    [(Value (Operand 3) int_type,
                      Value (createSub (Operand 3) (ConstantInt (Number ''1'')) ''sub'')
                        int_type)]\<rparr>)"
    by (simp add: sample_def int_type_def new_context_def Let_def)
  have neg: "PrefixUnaryExpressionCodeGenerator_generate sample
               (PrefixUnaryExpression 2 ExclamationToken (Identifier 3 ''b'')) new_context =
             Inr (Value (createNot (Operand 3) ''not'') boolean_type, new_context)"
    by (simp add: sample_def boolean_type_def Let_def)
  show ?thesis
    using dec neg operand_assigned_for_increment_only [OF dec]
      operand_assigned_for_increment_only [OF neg]
    by simp
qed

section \<open>The flag that a garbage collector is required\<close>

lemma keeps_requiresGc_sample: "keeps_requiresGc sample"
  by (auto simp add: keeps_requiresGc_def sample_def createRuntimeMethod_def
      FunctionReference_invokeWith_def
      elim!: sample_generateValue.elims split: option.splits)

lemma declareConstructor_requiresGc:
  "declareConstructor env type constructorName context = Inr (constructorFn, context') \<Longrightarrow>
   requiresGc context' = requiresGc context"
  by (auto simp add: declareConstructor_def Let_def split: option.splits sum.splits)

lemma fromLiteral_requiresGc:
  assumes "keeps_requiresGc env"
    and "fromLiteral env type elements context = Inr (array, context')"
  shows "requiresGc context'"
proof -
  from assms(2) obtain constructorFunction context1 where
    "invokeWith env constructorFunction elements (context1\<lparr>requiresGc := True\<rparr>) =
       Inr (array, context')"
    by (auto simp add: fromLiteral_def Let_def
        split: option.splits list.splits sum.splits)
  moreover have "requiresGc (context1\<lparr>requiresGc := True\<rparr>)"
    by simp
  ultimately show ?thesis
    using assms(1) unfolding keeps_requiresGc_def by blast
qed

lemma fromCArray_requiresGc:
  "fromCArray env type elementsPtr length' context = Inr (array, context') \<Longrightarrow>
   requiresGc context'"
  by (auto simp add: fromCArray_def Let_def split: sum.splits)

lemma getConstructor_requiresGc:
  assumes "keeps_requiresGc env"
    and "getConstructor env newExpression context = Inr (reference, context')"
  shows "requiresGc context'"
proof -
  have "requiresGc (context\<lparr>requiresGc := True\<rparr>)"
    by simp
  then show ?thesis
    using assms unfolding keeps_requiresGc_def getConstructor_def Let_def by blast
qed

text \<open>
  C4. Each of the three entry points that construct an array (from the elements of a
  literal, from a raw buffer and its length, and the resolution of the constructor of a
  new-expression) returns a context in which the flag is set, whatever it was before,
  provided the collaborators called after the flag is set do not clear it.
\<close>

theorem array_construction_sets_requiresGc:
  assumes "keeps_requiresGc env"
  shows "(fromLiteral env type elements context = Inr (array, context') \<longrightarrow>
            requiresGc context') \<and>
         (fromCArray env type elementsPtr length' context = Inr (array, context') \<longrightarrow>
            requiresGc context') \<and>
         (getConstructor env newExpression context = Inr (reference, context') \<longrightarrow>
            requiresGc context')"
  using assms fromLiteral_requiresGc fromCArray_requiresGc getConstructor_requiresGc
  by blast

theorem array_construction_sets_requiresGc_witness:
  "\<not> requiresGc new_context \<and>
   (\<exists>array context'.
      fromLiteral sample int_array_type [Operand 1, Operand 2, Operand 3] new_context =
        Inr (array, context') \<and> requiresGc context') \<and>
   (\<exists>array context'.
      fromCArray sample int_array_type (Operand 1) (Operand 2) new_context =
        Inr (array, context') \<and> requiresGc context') \<and>
   (\<exists>reference context'.
      getConstructor sample (NewExpression 0 (Identifier 1 ''Array'') []) new_context =
        Inr (reference, context') \<and> requiresGc context')"
proof -
  obtain a1 c1 where l:
    "fromLiteral sample int_array_type [Operand 1, Operand 2, Operand 3] new_context =
       Inr (a1, c1)"
    by (simp add: fromLiteral_def sample_def int_array_type_def array_symbol_def
        FunctionReference_invokeWith_def createResolvedFunction_def Let_def)
  obtain a2 c2 where c:
    "fromCArray sample int_array_type (Operand 1) (Operand 2) new_context = Inr (a2, c2)"
    by (simp add: fromCArray_def declareConstructor_def getLLVMArrayElementType_def
        sample_def sample_getArrayElementType_def sample_toLLVMType_def int_array_type_def
        int_type_def new_context_def Let_def)
  obtain r3 c3 where n:
    "getConstructor sample (NewExpression 0 (Identifier 1 ''Array'') []) new_context =
       Inr (r3, c3)"
    by (simp add: getConstructor_def sample_def Let_def)
  show ?thesis
    using l c n
      array_construction_sets_requiresGc
        [OF keeps_requiresGc_sample, THEN conjunct1, THEN mp, OF l]
      array_construction_sets_requiresGc
        [OF keeps_requiresGc_sample, THEN conjunct2, THEN conjunct1, THEN mp, OF c]
      array_construction_sets_requiresGc
        [OF keeps_requiresGc_sample, THEN conjunct2, THEN conjunct2, THEN mp, OF n]
    by (simp add: new_context_def)
qed

lemma keeps_generateValue:
  "keeps_requiresGc env \<Longrightarrow> generateValue env node c = Inr (v, c') \<Longrightarrow>
   requiresGc c \<Longrightarrow> requiresGc c'"
  unfolding keeps_requiresGc_def by fast

lemma keeps_assignValue:
  "keeps_requiresGc env \<Longrightarrow> assignValue env target v c = Inr c' \<Longrightarrow>
   requiresGc c \<Longrightarrow> requiresGc c'"
  unfolding keeps_requiresGc_def by fast

lemma keeps_createRuntimeMethod:
  "keeps_requiresGc env \<Longrightarrow>
   UnresolvedMethodReference_createRuntimeMethod env this signatures properties c =
     Inr (reference, c') \<Longrightarrow>
   requiresGc c \<Longrightarrow> requiresGc c'"
  unfolding keeps_requiresGc_def by fast

lemma keeps_invokeWith:
  "keeps_requiresGc env \<Longrightarrow> invokeWith env reference args c = Inr (v, c') \<Longrightarrow>
   requiresGc c \<Longrightarrow> requiresGc c'"
  unfolding keeps_requiresGc_def by fast

lemma generate_succeeds_after_operand:
  assumes "PrefixUnaryExpressionCodeGenerator_generate env
             (PrefixUnaryExpression pos operator operand) context = Inr (v, context')"
  shows "\<exists>left context1.
           generateValue env operand context = Inr (left, context1) \<and>
           (assignValue env left v context1 = Inr context' \<or> context' = context1)"
  using assms
  by (auto simp add: Let_def split: sum.splits option.splits prod.splits if_splits)

lemma generate_keeps_requiresGc:
  assumes "keeps_requiresGc env"
    and "PrefixUnaryExpressionCodeGenerator_generate env
           (PrefixUnaryExpression pos operator operand) context = Inr (v, context')"
    and "requiresGc context"
  shows "requiresGc context'"
proof -
  from generate_succeeds_after_operand [OF assms(2)] obtain left context1 where
    operand: "generateValue env operand context = Inr (left, context1)" and
    rest: "assignValue env left v context1 = Inr context' \<or> context' = context1"
    by blast
  from keeps_generateValue [OF assms(1) operand assms(3)] have "requiresGc context1" .
  with rest keeps_assignValue [OF assms(1)] show ?thesis
    by blast
qed

lemma pow_keeps_requiresGc:
  assumes "keeps_requiresGc env"
    and "pow env lhs lhsType rhs rhsType numberType context = Inr (v, context')"
    and "requiresGc context"
  shows "requiresGc context'"
proof -
  from assms(2) obtain this signatures properties reference context1 args where
    "UnresolvedMethodReference_createRuntimeMethod env this signatures properties context =
       Inr (reference, context1)"
    and "invokeWith env reference args context1 = Inr (v, context')"
    by (auto simp add: pow_def Let_def split: sum.splits option.splits)
  with assms(1,3) show ?thesis
    by (blast dest: keeps_createRuntimeMethod keeps_invokeWith)
qed

lemma createFunctionFor_keeps_requiresGc:
  assumes "keeps_requiresGc env"
    and "createFunctionFor env this symbol' signatures propertyAccessExpression context =
           Inr (reference, context')"
    and "requiresGc context"
  shows "requiresGc context'"
  using assms unfolding createFunctionFor_def
  by (auto split: if_splits dest: keeps_createRuntimeMethod)

lemma generation_step_keeps_requiresGc:
  assumes "keeps_requiresGc env"
    and "generation_step env step context = Inr context'"
    and "requiresGc context"
  shows "requiresGc context'"
proof (cases step)
  case (FromLiteral type elements)
  with assms show ?thesis
    by (auto simp add: map_sum_def split: sum.splits dest: fromLiteral_requiresGc)
next
  case (FromCArray type elementsPtr length')
  with assms show ?thesis
    by (auto simp add: map_sum_def split: sum.splits dest: fromCArray_requiresGc)
next
  case (GetConstructor newExpression)
  with assms show ?thesis
    by (auto simp add: map_sum_def split: sum.splits dest: getConstructor_requiresGc)
next
  case (GeneratePrefixUnary pos operator operand)
  with assms show ?thesis
    by (auto simp add: map_sum_def split: sum.splits
        simp del: PrefixUnaryExpressionCodeGenerator_generate.simps
        dest: generate_keeps_requiresGc)
next
  case (GenerateLiteral pos node_text)
  with assms show ?thesis
    by (auto simp add: map_sum_def split: sum.splits)
next
  case (MathPow lhs lhsType rhs rhsType numberType)
  with assms show ?thesis
    by (auto simp add: map_sum_def split: sum.splits dest: pow_keeps_requiresGc)
next
  case (MathFunction this symbol' signatures propertyAccessExpression)
  with assms show ?thesis
    by (auto simp add: map_sum_def split: sum.splits dest: createFunctionFor_keeps_requiresGc)
qed

lemma allocating_step_sets_requiresGc:
  assumes "keeps_requiresGc env"
    and "generation_step env step context = Inr context'"
    and "allocating step"
  shows "requiresGc context'"
  using assms
  by (cases step)
    (auto simp add: map_sum_def split: sum.splits
      dest: fromLiteral_requiresGc fromCArray_requiresGc getConstructor_requiresGc)

lemma compilation_keeps_requiresGc:
  assumes "keeps_requiresGc env"
  shows "compilation env steps context = Inr context' \<Longrightarrow> requiresGc context \<Longrightarrow>
         requiresGc context'"
proof (induction steps arbitrary: "context")
  case Nil
  then show ?case by simp
next
  case (Cons step steps)
  from Cons.prems(1) obtain context1 where
    first: "generation_step env step context = Inr context1" and
    rest: "compilation env steps context1 = Inr context'"
    by (auto split: sum.splits)
  from generation_step_keeps_requiresGc [OF assms first Cons.prems(2)]
  have "requiresGc context1" .
  with Cons.IH rest show ?case by blast
qed

text \<open>
  C5. The flag is monotonic within one compilation: if the collaborators never clear
  it, no sequence of calls of the entry points of these sources does. When the
  compilation has come through a sequence of calls, a flag that was set at its start is
  set at its end, and when one of the calls constructed an array the flag is set at
  the end, however many calls followed that one.
\<close>

theorem requiresGc_monotonic:
  assumes "keeps_requiresGc env"
    and "compilation env steps context = Inr context'"
  shows "(requiresGc context \<longrightarrow> requiresGc context') \<and>
         ((\<exists>step \<in> set steps. allocating step) \<longrightarrow> requiresGc context')"
proof
  show "requiresGc context \<longrightarrow> requiresGc context'"
    using compilation_keeps_requiresGc [OF assms(1) assms(2)] by blast
next
  show "(\<exists>step \<in> set steps. allocating step) \<longrightarrow> requiresGc context'"
    using assms(2)
  proof (induction steps arbitrary: "context")
    case Nil
    then show ?case by simp
  next
    case (Cons step steps)
    from Cons.prems obtain context1 where
      first: "generation_step env step context = Inr context1" and
      rest: "compilation env steps context1 = Inr context'"
      by (auto split: sum.splits)
    show ?case
    proof (cases "allocating step")
      case True
      from allocating_step_sets_requiresGc [OF assms(1) first True]
      have "requiresGc context1" .
      with compilation_keeps_requiresGc [OF assms(1) rest] show ?thesis by blast
    next
      case False
      with Cons.IH [OF rest] show ?thesis by simp
    qed
  qed
qed

theorem requiresGc_monotonic_witness:
  "compilation sample
     [GeneratePrefixUnary 2 PlusPlusToken (Identifier 3 ''i''),
      FromCArray int_array_type (Operand 1) (Operand 2),
      GenerateLiteral 8 ''42'',
      GeneratePrefixUnary 5 MinusToken (Identifier 6 ''x'')] new_context =
     Inr \<lparr>requiresGc = True,
          module =
            [''Array_constructor'' \<mapsto>
               Function (FunctionTy (PointerTy (StructTy ''class.Array'' []))
                           [PointerTy Int32Ty, Int32Ty] False)
                 ExternalLinkage ''Array_constructor'' [AlwaysInline]],
          assigned =
            [(Value (Operand 3) int_type,
              Value (createAdd (Operand 3) (ConstantInt (Number ''1'')) ''add'') int_type)]\<rparr> \<and>
   \<not> requiresGc new_context \<and>
   allocating (FromCArray int_array_type (Operand 1) (Operand 2))"
proof -
  have run: "compilation sample
     [GeneratePrefixUnary 2 PlusPlusToken (Identifier 3 ''i''),
      FromCArray int_array_type (Operand 1) (Operand 2),
      GenerateLiteral 8 ''42'',
      GeneratePrefixUnary 5 MinusToken (Identifier 6 ''x'')] new_context =
     Inr \<lparr>requiresGc = True,
          module =
            [''Array_constructor'' \<mapsto>
               Function (FunctionTy (PointerTy (StructTy ''class.Array'' []))
                           [PointerTy Int32Ty, Int32Ty] False)
                 ExternalLinkage ''Array_constructor'' [AlwaysInline]],
          assigned =
            [(Value (Operand 3) int_type,
              Value (createAdd (Operand 3) (ConstantInt (Number ''1'')) ''add'') int_type)]\<rparr>"
    by (simp add: sample_def new_context_def Let_def int_type_def number_type_def
        int_array_type_def fromCArray_def declareConstructor_def
        getLLVMArrayElementType_def sample_getArrayElementType_def sample_toLLVMType_def)
  show ?thesis
    using run requiresGc_monotonic [OF keeps_requiresGc_sample run]
    by (simp add: new_context_def)
qed

section \<open>The layout of arrays\<close>






section \<open>Mangled names of the functions marked with "use speedyjs"\<close>




section \<open>The built-in Math object: members and the power intrinsic\<close>

text \<open>
  C3. An access to a member of the Math object whose name is not supported fails and
  returns no reference. For a method whose name is not one of \<open>pow\<close>, \<open>sqrt\<close>,
  \<open>log\<close>, \<open>sin\<close>, \<open>cos\<close>, \<open>max\<close> the diagnostic is built from the access, the
  name \<open>Math\<close> and the name of the member; for a property whose name is not \<open>PI\<close> it
  is the diagnostic of the inherited \<^verbatim>\<open>throwUnsupportedBuiltIn\<close>, which names the
  object by its type name \<open>Math\<close> and the member that is accessed.
\<close>

theorem unsupported_Math_member_fails:
  "(symbol_name symbol' \<notin> {''pow'', ''sqrt'', ''log'', ''sin'', ''cos'', ''max''} \<longrightarrow>
      createFunctionFor env this symbol' signatures propertyAccessExpression context =
        Inl (builtInMethodNotSupported propertyAccessExpression ''Math''
               (symbol_name symbol'))) \<and>
   (symbol_name symbol' \<noteq> ''PI'' \<longrightarrow>
      createPropertyReference this symbol' (PropertyAccessExpression pos expression member)
        context =
        Inl (UnsupportedBuiltIn (PropertyAccessExpression pos expression member) ''Math''
               member))"
  by (simp add: createFunctionFor_def createPropertyReference_def typeName_def)

theorem unsupported_Math_member_fails_witness:
  "createFunctionFor sample (MathObjectReference 0 math_type)
     (Symbol ''frobnicate'' [] None) []
     (PropertyAccessExpression 4 (Identifier 0 ''Math'') ''frobnicate'') new_context =
     Inl (builtInMethodNotSupported
            (PropertyAccessExpression 4 (Identifier 0 ''Math'') ''frobnicate'') ''Math''
            ''frobnicate'') \<and>
   createPropertyReference (MathObjectReference 0 math_type)
     (Symbol ''frobnicate'' [] None)
     (PropertyAccessExpression 4 (Identifier 0 ''Math'') ''frobnicate'') new_context =
     Inl (UnsupportedBuiltIn
            (PropertyAccessExpression 4 (Identifier 0 ''Math'') ''frobnicate'') ''Math''
            ''frobnicate'')"
  using unsupported_Math_member_fails
      [of "Symbol ''frobnicate'' [] None" sample "MathObjectReference 0 math_type" "[]"
        "PropertyAccessExpression 4 (Identifier 0 ''Math'') ''frobnicate''" new_context
        4 "Identifier 0 ''Math''" "''frobnicate''"]
  by simp

text \<open>
  C2. With the conversion to number, the method reference and its invocation as the
  spec has them, \<^verbatim>\<open>Math.pow\<close> on two operands of integer-like static type converts
  both operands to floating point (\<open>SIToFP\<close>) and the call that is returned has exactly
  the two converted operands, in order; the reference it calls was made with the
  attribution \<open>readnone\<close> and \<open>noUnwind\<close>. The context is not changed.
\<close>

theorem pow_promotes_integer_operands:
  assumes "IntLike \<in> flags lhsType" and "IntLike \<in> flags rhsType"
    and "toNumber env = Primitive_toNumber"
    and "UnresolvedMethodReference_createRuntimeMethod env = createRuntimeMethod"
    and "invokeWith env = FunctionReference_invokeWith"
    and "getVariable env (builtIns env ''Math'') context = Inr mathAllocation"
    and "mathObject = dereference env mathAllocation context"
    and "getProperty env (object_type mathObject) ''pow'' = Some powSymbol"
    and "powSignature = getSignatureFromDeclaration env (valueDeclaration powSymbol)"
  shows "pow env lhs lhsType rhs rhsType numberType context =
         Inr (Value
                (RuntimeCall
                   (UnresolvedMethodReference mathObject [powSignature]
                      \<lparr>readnone = True, noUnwind = True\<rparr>)
                   [SIToFP (generateIR lhs), SIToFP (generateIR rhs)])
                (getReturnType powSignature),
              context)"
  using assms
  by (simp add: pow_def Let_def Primitive_toNumber_def createRuntimeMethod_def
      FunctionReference_invokeWith_def)

theorem pow_promotes_integer_operands_witness:
  "IntLike \<in> flags int_type \<and>
   pow sample (Value (Operand 1) int_type) int_type (Value (Operand 2) int_type) int_type
     number_type new_context =
   Inr (Value
          (RuntimeCall
             (UnresolvedMethodReference (MathObjectReference 0 math_type)
                [Signature 1 number_type] \<lparr>readnone = True, noUnwind = True\<rparr>)
             [SIToFP (Operand 1), SIToFP (Operand 2)])
          number_type,
        new_context)"
proof -
  have int: "IntLike \<in> flags int_type"
    by (simp add: int_type_def)
  have variable: "getVariable sample (builtIns sample ''Math'') new_context =
                    Inr (Value (Operand 0) math_type)"
    by (simp add: sample_def)
  have property: "getProperty sample
                    (object_type (dereference sample (Value (Operand 0) math_type) new_context))
                    ''pow'' = Some pow_symbol"
    by (simp add: sample_def)
  show ?thesis
    using int
      pow_promotes_integer_operands
        [OF int int _ _ _ variable refl property refl,
          of "Value (Operand 1) int_type" "Value (Operand 2) int_type" number_type]
    by (simp add: sample_def)
qed

end
